theory Spec2Isabelle
  imports Complex_Main
begin

section \<open>The explorer's mixnode grid rows\<close>

text \<open>
  The development embeds \<^verbatim>\<open>explorer/src/components/MixNodes/index.ts\<close>: the two
  functions \<^verbatim>\<open>mixnodeToGridRow\<close> and \<^verbatim>\<open>mixNodeResponseItemToMixnodeRowType\<close>,
  together with the part of the language's runtime they call: the Number type (IEEE 754
  binary64 with round to nearest, ties to even), \<^verbatim>\<open>Number(string)\<close>, the operators
  \<^verbatim>\<open>+\<close>, \<^verbatim>\<open>*\<close>, \<^verbatim>\<open>/\<close> and \<^verbatim>\<open>||\<close>, \<^verbatim>\<open>Number.prototype.toFixed\<close>
  and the string conversion of template literals.
\<close>

subsection \<open>Numbers\<close>

text \<open>
  A Number is NaN, an infinity, the negative zero, or a finite value, held as the rational
  it denotes (\<open>Fin 0\<close> is the positive zero). Every arithmetic result is rounded to the
  nearest binary64 value by \<open>round_double\<close>.
\<close>

datatype jsnum = NaN | PInf | NInf | NZero | Fin rat

text \<open>The number of digits of a positive integer in base \<open>b\<close>.\<close>

function ndigits :: "int \<Rightarrow> int \<Rightarrow> int" where
  "ndigits b x = (if 1 < b \<and> 0 < x then ndigits b (x div b) + 1 else 0)"
  by pat_completeness auto
termination
  by (relation "measure (\<lambda>(b, x). nat x)") (auto simp: int_div_less_self)

declare ndigits.simps [simp del]

text \<open>
  \<open>ilog b q\<close> is the integer \<open>e\<close> with \<open>b^e \<le> q < b^(e+1)\<close>, for a positive \<open>q\<close>:
  from the digits of the integer part of \<open>q\<close>, or of \<open>1 / q\<close> when \<open>q < 1\<close>.
\<close>

definition ilog :: "int \<Rightarrow> rat \<Rightarrow> int" where
  "ilog b q =
     (if 1 \<le> q then ndigits b \<lfloor>q\<rfloor> - 1
      else
        let d = ndigits b \<lfloor>1 / q\<rfloor>
        in if q = of_int b powi (1 - d) then 1 - d else - d)"

definition round_half_even :: "rat \<Rightarrow> int" where
  "round_half_even t =
     (let f = \<lfloor>t\<rfloor>; r = t - of_int f
      in if r < 1 / 2 then f else if 1 / 2 < r then f + 1
         else if even f then f else f + 1)"

text \<open>
  Rounding a positive magnitude to 53 significant bits; below \<open>2^-1022\<close> the spacing
  stays that of the subnormal numbers, \<open>2^-1074\<close>.
\<close>

definition round_mag :: "rat \<Rightarrow> rat" where
  "round_mag q =
     (let e = max (ilog 2 q) (- 1022);
          ulp = 2 powi (e - 52)
      in of_int (round_half_even (q / ulp)) * ulp)"

definition round_double :: "rat \<Rightarrow> jsnum" where
  "round_double q =
     (if q = 0 then Fin 0
      else let m = round_mag \<bar>q\<bar> in
        if 2 ^ 1024 \<le> m then (if q < 0 then NInf else PInf)
        else if m = 0 then (if q < 0 then NZero else Fin 0)
        else Fin (if q < 0 then - m else m))"

definition is_nan :: "jsnum \<Rightarrow> bool" where
  "is_nan x = (x = NaN)"

definition is_inf :: "jsnum \<Rightarrow> bool" where
  "is_inf x = (x = PInf \<or> x = NInf)"

definition is_zero :: "jsnum \<Rightarrow> bool" where
  "is_zero x = (x = NZero \<or> x = Fin 0)"

definition is_finite :: "jsnum \<Rightarrow> bool" where
  "is_finite x = (\<not> is_nan x \<and> \<not> is_inf x)"

fun is_neg :: "jsnum \<Rightarrow> bool" where
  "is_neg NaN = False"
| "is_neg PInf = False"
| "is_neg NInf = True"
| "is_neg NZero = True"
| "is_neg (Fin q) = (q < 0)"

fun to_rat :: "jsnum \<Rightarrow> rat" where
  "to_rat (Fin q) = q"
| "to_rat _ = 0"

definition signed_inf :: "bool \<Rightarrow> jsnum" where
  "signed_inf neg = (if neg then NInf else PInf)"

definition signed_zero :: "bool \<Rightarrow> jsnum" where
  "signed_zero neg = (if neg then NZero else Fin 0)"

text \<open>\<^verbatim>\<open>x + y\<close> on Numbers (Number::add).\<close>

fun num_add :: "jsnum \<Rightarrow> jsnum \<Rightarrow> jsnum" where
  "num_add NaN y = NaN"
| "num_add x NaN = NaN"
| "num_add PInf NInf = NaN"
| "num_add NInf PInf = NaN"
| "num_add PInf y = PInf"
| "num_add NInf y = NInf"
| "num_add x PInf = PInf"
| "num_add x NInf = NInf"
| "num_add NZero y = y"
| "num_add x NZero = x"
| "num_add (Fin a) (Fin b) = round_double (a + b)"

text \<open>\<^verbatim>\<open>x * y\<close> on Numbers (Number::multiply).\<close>

definition num_mul :: "jsnum \<Rightarrow> jsnum \<Rightarrow> jsnum" where
  "num_mul x y =
     (if is_nan x \<or> is_nan y then NaN
      else if is_inf x \<or> is_inf y then
        (if is_zero x \<or> is_zero y then NaN else signed_inf (is_neg x \<noteq> is_neg y))
      else if is_zero x \<or> is_zero y then signed_zero (is_neg x \<noteq> is_neg y)
      else round_double (to_rat x * to_rat y))"

text \<open>\<^verbatim>\<open>x / y\<close> on Numbers (Number::divide): a division by zero is no error.\<close>

definition num_div :: "jsnum \<Rightarrow> jsnum \<Rightarrow> jsnum" where
  "num_div x y =
     (if is_nan x \<or> is_nan y then NaN
      else if is_inf x then
        (if is_inf y then NaN else signed_inf (is_neg x \<noteq> is_neg y))
      else if is_inf y then signed_zero (is_neg x \<noteq> is_neg y)
      else if is_zero x then
        (if is_zero y then NaN else signed_zero (is_neg x \<noteq> is_neg y))
      else if is_zero y then signed_inf (is_neg x \<noteq> is_neg y)
      else round_double (to_rat x / to_rat y))"

text \<open>ToBoolean on a Number: the zeros and NaN are falsy.\<close>

definition truthy_num :: "jsnum \<Rightarrow> bool" where
  "truthy_num x = (\<not> is_zero x \<and> \<not> is_nan x)"

subsection \<open>Numbers to strings\<close>

definition digit_char :: "int \<Rightarrow> char" where
  "digit_char d = char_of (48 + d)"

function dec_digits :: "int \<Rightarrow> string" where
  "dec_digits n =
     (if n < 10 then [digit_char n] else dec_digits (n div 10) @ [digit_char (n mod 10)])"
  by pat_completeness auto
termination
  by (relation "measure nat") (auto simp: int_div_less_self)

declare dec_digits.simps [simp del]

text \<open>
  Number::toString chooses the shortest decimal \<open>s \<times> 10^(n-k)\<close> of \<open>k\<close> digits that
  rounds back to the number, the closest one when several do. \<open>digits_at\<close> tries one
  \<open>k\<close>: only the two \<open>k\<close>-digit decimals around \<open>q\<close> can be the closest.
\<close>

definition digits_at :: "rat \<Rightarrow> int \<Rightarrow> nat \<Rightarrow> (int \<times> int) option" where
  "digits_at q n0 k =
     (let t = q * 10 powi (int k - n0);
          lo = \<lfloor>t\<rfloor>; hi = lo + 1;
          ok = (\<lambda>s. round_double (of_int s * 10 powi (n0 - int k)) = round_double q);
          pick =
            (if ok lo \<and> ok hi then
               (if t - of_int lo < of_int hi - t then Some lo
                else if of_int hi - t < t - of_int lo then Some hi
                else if even lo then Some lo else Some hi)
             else if ok lo then Some lo
             else if ok hi then Some hi
             else None)
      in map_option (\<lambda>s. if s = 10 ^ k then (10 ^ (k - 1), n0 + 1) else (s, n0)) pick)"

text \<open>
  The search over \<open>k = 1, 2, \<dots>\<close>; seventeen digits always identify a binary64 value, so
  the first equation is only there to make the function total.
\<close>

fun shortest_digits :: "nat \<Rightarrow> rat \<Rightarrow> int \<Rightarrow> nat \<Rightarrow> int \<times> int \<times> nat" where
  "shortest_digits 0 q n0 k = (\<lfloor>q * 10 powi (int k - n0)\<rfloor>, n0, k)"
| "shortest_digits (Suc fuel) q n0 k =
     (case digits_at q n0 k of
        Some (s, n) \<Rightarrow> (s, n, k)
      | None \<Rightarrow> shortest_digits fuel q n0 (Suc k))"

definition toString_pos :: "rat \<Rightarrow> string" where
  "toString_pos q =
     (let (s, n, k) = shortest_digits 17 q (ilog 10 q + 1) 1;
          ds = dec_digits s
      in if int k \<le> n \<and> n \<le> 21 then ds @ replicate (nat (n - int k)) CHR ''0''
         else if 0 < n \<and> n \<le> 21 then take (nat n) ds @ ''.'' @ drop (nat n) ds
         else if - 6 < n \<and> n \<le> 0 then ''0.'' @ replicate (nat (- n)) CHR ''0'' @ ds
         else
           let e = n - 1;
               es = (if e < 0 then ''-'' else ''+'') @ dec_digits \<bar>e\<bar>
           in if k = 1 then ds @ ''e'' @ es
              else take 1 ds @ ''.'' @ drop 1 ds @ ''e'' @ es)"

fun Number_toString :: "jsnum \<Rightarrow> string" where
  "Number_toString NaN = ''NaN''"
| "Number_toString PInf = ''Infinity''"
| "Number_toString NInf = ''-Infinity''"
| "Number_toString NZero = ''0''"
| "Number_toString (Fin q) =
     (if q = 0 then ''0''
      else if q < 0 then ''-'' @ toString_pos (- q)
      else toString_pos q)"

datatype error = TypeError | RangeError

text \<open>
  \<^verbatim>\<open>x.toFixed(fractionDigits)\<close>: a RangeError outside 0..100; a number that is not
  finite, or of magnitude \<open>10^21\<close> and more, prints as Number::toString does; otherwise
  the nearest integer \<open>n\<close> to \<open>x \<times> 10^f\<close> (the larger of two) is printed with \<open>f\<close>
  digits after the point.
\<close>

definition toFixed_digits :: "nat \<Rightarrow> rat \<Rightarrow> string" where
  "toFixed_digits f x =
     (let n = \<lfloor>x * 10 ^ f + 1 / 2\<rfloor>;
          m = (if n = 0 then ''0'' else dec_digits n)
      in if f = 0 then m
         else
           let m' = (if length m \<le> f then replicate (f + 1 - length m) CHR ''0'' @ m else m);
               k = length m'
           in take (k - f) m' @ ''.'' @ drop (k - f) m')"

definition toFixed :: "jsnum \<Rightarrow> int \<Rightarrow> error + string" where
  "toFixed x fractionDigits =
     (if fractionDigits < 0 \<or> 100 < fractionDigits then Inl RangeError
      else if \<not> is_finite x then Inr (Number_toString x)
      else
        let q = to_rat x;
            s = (if q < 0 then ''-'' else '''');
            a = \<bar>q\<bar>
        in Inr (s @ (if 10 ^ 21 \<le> a then Number_toString (Fin a)
                     else toFixed_digits (nat fractionDigits) a)))"

subsection \<open>Strings to numbers\<close>

text \<open>
  \<^verbatim>\<open>Number(s)\<close> on a string (StringToNumber). A \<open>char\<close> is a code unit below 256; of
  the white space and line terminators of the language those are the six ASCII ones and
  the no-break space.
\<close>

definition is_ws :: "char \<Rightarrow> bool" where
  "is_ws c = (of_char c \<in> {9, 10, 11, 12, 13, 32, 160 :: nat})"

definition trim :: "string \<Rightarrow> string" where
  "trim s = rev (dropWhile is_ws (rev (dropWhile is_ws s)))"

definition digit_of :: "char \<Rightarrow> int option" where
  "digit_of c =
     (let n = of_char c :: int
      in if 48 \<le> n \<and> n \<le> 57 then Some (n - 48)
         else if 97 \<le> n \<and> n \<le> 102 then Some (n - 87)
         else if 65 \<le> n \<and> n \<le> 70 then Some (n - 55)
         else None)"

definition is_digit :: "int \<Rightarrow> char \<Rightarrow> bool" where
  "is_digit base c = (case digit_of c of None \<Rightarrow> False | Some d \<Rightarrow> d < base)"

definition digits_val :: "int \<Rightarrow> string \<Rightarrow> int" where
  "digits_val base s = foldl (\<lambda>a c. base * a + (case digit_of c of None \<Rightarrow> 0 | Some d \<Rightarrow> d)) 0 s"

text \<open>The literals \<^verbatim>\<open>0x..\<close>, \<^verbatim>\<open>0o..\<close> and \<^verbatim>\<open>0b..\<close>, which take no sign.\<close>

definition radix_of :: "char \<Rightarrow> int option" where
  "radix_of c =
     (if c = CHR ''x'' \<or> c = CHR ''X'' then Some 16
      else if c = CHR ''o'' \<or> c = CHR ''O'' then Some 8
      else if c = CHR ''b'' \<or> c = CHR ''B'' then Some 2
      else None)"

fun parse_nondecimal :: "string \<Rightarrow> int option" where
  "parse_nondecimal (c0 # c1 # rest) =
     (case radix_of c1 of
        None \<Rightarrow> None
      | Some base \<Rightarrow>
          if c0 = CHR ''0'' \<and> rest \<noteq> [] \<and> list_all (is_digit base) rest
          then Some (digits_val base rest) else None)"
| "parse_nondecimal _ = None"

text \<open>The exponent part after the \<^verbatim>\<open>e\<close>: an optional sign and at least one digit.\<close>

definition parse_exponent :: "string \<Rightarrow> int option" where
  "parse_exponent s =
     (let (neg, ds) =
            (case s of
               c # r \<Rightarrow> if c = CHR ''-'' then (True, r) else if c = CHR ''+'' then (False, r)
                        else (False, s)
             | [] \<Rightarrow> (False, s))
      in if ds \<noteq> [] \<and> list_all (is_digit 10) ds
         then Some (if neg then - digits_val 10 ds else digits_val 10 ds) else None)"

text \<open>
  An unsigned decimal literal: digits, an optional point and digits (digits on one side
  of the point at least), an optional exponent. The result is its mathematical value.
\<close>

definition parse_decimal :: "string \<Rightarrow> rat option" where
  "parse_decimal s =
     (let ip = takeWhile (is_digit 10) s;
          r1 = dropWhile (is_digit 10) s;
          (fp, r2) =
            (case r1 of
               c # t \<Rightarrow> if c = CHR ''.'' then (takeWhile (is_digit 10) t, dropWhile (is_digit 10) t)
                        else ([], r1)
             | [] \<Rightarrow> ([], r1));
          ex =
            (case r2 of
               [] \<Rightarrow> Some 0
             | c # t \<Rightarrow> if c = CHR ''e'' \<or> c = CHR ''E'' then parse_exponent t else None)
      in if ip = [] \<and> fp = [] then None
         else
           (case ex of
              None \<Rightarrow> None
            | Some e \<Rightarrow> Some (of_int (digits_val 10 (ip @ fp)) * 10 powi (e - int (length fp)))))"

definition Number :: "string \<Rightarrow> jsnum" where
  "Number s =
     (let t = trim s
      in if t = [] then Fin 0
         else
           (case parse_nondecimal t of
              Some v \<Rightarrow> round_double (of_int v)
            | None \<Rightarrow>
                let (neg, u) =
                      (case t of
                         c # r \<Rightarrow> if c = CHR ''-'' then (True, r) else if c = CHR ''+'' then (False, r)
                                  else (False, t)
                       | [] \<Rightarrow> (False, t))
                in if u = ''Infinity'' then signed_inf neg
                   else
                     (case parse_decimal u of
                        None \<Rightarrow> NaN
                      | Some mv \<Rightarrow>
                          if mv = 0 then signed_zero neg
                          else round_double (if neg then - mv else mv))))"

subsection \<open>The operator \<^verbatim>\<open>||\<close> and template literals\<close>

text \<open>
  \<^verbatim>\<open>a || b\<close> is \<open>a\<close> when \<open>a\<close> is truthy and \<open>b\<close> otherwise. The source applies it to
  a Number, to a field that may be absent (absent is \<^verbatim>\<open>undefined\<close>, falsy; so is the
  empty string) and, for \<^verbatim>\<open>stakeSaturation\<close>, to a Number with a string default, whose
  result is a value of either type.
\<close>

datatype jsval = Undefined | Num jsnum | Str string

fun ToBoolean :: "jsval \<Rightarrow> bool" where
  "ToBoolean Undefined = False"
| "ToBoolean (Num x) = truthy_num x"
| "ToBoolean (Str s) = (s \<noteq> [])"

fun typeof :: "jsval \<Rightarrow> string" where
  "typeof Undefined = ''undefined''"
| "typeof (Num x) = ''number''"
| "typeof (Str s) = ''string''"

fun ToNumber :: "jsval \<Rightarrow> jsnum" where
  "ToNumber Undefined = NaN"
| "ToNumber (Num x) = x"
| "ToNumber (Str s) = Number s"

fun ToString :: "jsval \<Rightarrow> string" where
  "ToString Undefined = ''undefined''"
| "ToString (Num x) = Number_toString x"
| "ToString (Str s) = s"

definition js_or :: "jsval \<Rightarrow> jsval \<Rightarrow> jsval" where
  "js_or a b = (if ToBoolean a then a else b)"

definition num_field :: "jsnum option \<Rightarrow> jsval" where
  "num_field v = (case v of None \<Rightarrow> Undefined | Some x \<Rightarrow> Num x)"

definition or_num :: "jsnum \<Rightarrow> jsnum \<Rightarrow> jsnum" where
  "or_num a b = (if truthy_num a then a else b)"

definition opt_or_num :: "jsnum option \<Rightarrow> jsnum \<Rightarrow> jsnum" where
  "opt_or_num a b = (case a of None \<Rightarrow> b | Some x \<Rightarrow> or_num x b)"

definition or_str :: "string \<Rightarrow> string \<Rightarrow> string" where
  "or_str a b = (if a \<noteq> [] then a else b)"

definition opt_or_str :: "string option \<Rightarrow> string \<Rightarrow> string" where
  "opt_or_str a b = (case a of None \<Rightarrow> b | Some s \<Rightarrow> or_str s b)"

subsection \<open>The records\<close>

text \<open>
  Modelled from the spec: the declarations of \<^verbatim>\<open>MixNodeResponseItem\<close>,
  \<^verbatim>\<open>MixNodeResponse\<close> and \<^verbatim>\<open>MixnodeStatus\<close> (\<^verbatim>\<open>typeDefs/explorer-api\<close>) are not
  part of the sources at hand. The fields are those the function reads, typed as the
  data model says: amounts as strings, profit margin, uptime and stake saturation as
  Numbers, the rest as strings; the status is passed through and stays a type
  parameter. A leaf field that the function defaults, or prints whether it is there or
  not, is optional (\<open>None\<close> is \<^verbatim>\<open>undefined\<close>). The nested objects are optional too, since the function reads
  \<^verbatim>\<open>location\<close> and \<^verbatim>\<open>mix_node\<close> through \<^verbatim>\<open>?.\<close>; reading a field of an absent
  object without \<^verbatim>\<open>?.\<close> throws a TypeError. \<open>well_shaped\<close> below says which of them
  the data model requires.
\<close>

record Amount =
  amount :: string

record MixNode =
  identity_key :: "string option"
  host :: "string option"
  profit_margin_percent :: "jsnum option"

record Location =
  country_name :: "string option"

record 'st MixNodeResponseItem =
  owner :: string
  status :: 'st
  mix_node :: "MixNode option"
  pledge_amount :: "Amount option"
  total_delegation :: "Amount option"
  location :: "Location option"
  layer :: "string option"
  avg_uptime :: "jsnum option"
  stake_saturation :: "jsnum option"

text \<open>
  The row, \<^verbatim>\<open>MixnodeRowType\<close>. Its field \<^verbatim>\<open>id\<close> is \<open>id'\<close> here; the fields it
  shares with the records above are told apart by the record's name
  (\<open>MixNodeResponseItem.owner item\<close> is \<^verbatim>\<open>item.owner\<close>).
\<close>

record 'st MixnodeRowType =
  id' :: string
  status :: 'st
  owner :: string
  location :: string
  identity_key :: string
  bond :: jsnum
  self_percentage :: string
  host :: string
  layer :: string
  profit_percentage :: string
  avg_uptime :: string
  stake_saturation :: string

text \<open>
  Modelled from the spec: the shape of an input record, whose declaration is not part of
  the sources at hand. The data model gives every record its node-info object, its
  pledge amount and its total-delegation amount; only the location object and the leaf
  fields may be absent.
\<close>

definition well_shaped :: "'st MixNodeResponseItem \<Rightarrow> bool" where
  "well_shaped item =
     (MixNodeResponseItem.mix_node item \<noteq> None \<and>
      MixNodeResponseItem.pledge_amount item \<noteq> None \<and>
      MixNodeResponseItem.total_delegation item \<noteq> None)"

subsection \<open>The row mapper\<close>

text \<open>
  \<^verbatim>\<open>mixNodeResponseItemToMixnodeRowType\<close>, statement by statement, in the order the
  source evaluates. Reading a field of an object without \<^verbatim>\<open>?.\<close> is a case
  distinction whose \<open>None\<close> branch throws; \<^verbatim>\<open>object?.field\<close> is \<open>Option.bind\<close>:
  absent when the object is. The parameter itself is a record, so \<^verbatim>\<open>item?.\<close> reads
  as \<^verbatim>\<open>item.\<close> does.
\<close>

text \<open>The last field of the row, from the local \<^verbatim>\<open>stakeSaturation\<close>.\<close>

definition stake_saturation_text :: "jsval \<Rightarrow> error + string" where
  "stake_saturation_text stakeSaturation =
     (if typeof stakeSaturation = ''number'' then
        (case toFixed (num_mul (ToNumber stakeSaturation) (Fin 100)) 2 of
           Inl e \<Rightarrow> Inl e
         | Inr s \<Rightarrow> Inr (s @ '' %''))
      else Inr ''-'')"

definition mixNodeResponseItemToMixnodeRowType ::
    "'st MixNodeResponseItem \<Rightarrow> error + 'st MixnodeRowType" where
  "mixNodeResponseItemToMixnodeRowType item =
     (case MixNodeResponseItem.pledge_amount item of
        None \<Rightarrow> Inl TypeError
      | Some pa \<Rightarrow>
     (case MixNodeResponseItem.total_delegation item of
        None \<Rightarrow> Inl TypeError
      | Some td \<Rightarrow>
     (let pledge = or_num (Number (amount pa)) (Fin 0);
          delegations = or_num (Number (amount td)) (Fin 0);
          totalBond = num_add pledge delegations
      in
     (case toFixed (num_div (num_mul pledge (Fin 100)) totalBond) 2 of
        Inl e \<Rightarrow> Inl e
      | Inr selfPercentage \<Rightarrow>
     (case MixNodeResponseItem.mix_node item of
        None \<Rightarrow> Inl TypeError
      | Some mn \<Rightarrow>
     (let profitPercentage = opt_or_num (profit_margin_percent mn) (Fin 0);
          stakeSaturation =
            js_or (num_field (MixNodeResponseItem.stake_saturation item)) (Str '''')
      in
     (case stake_saturation_text stakeSaturation of
        Inl e \<Rightarrow> Inl e
      | Inr saturation \<Rightarrow>
          Inr \<lparr> id' = MixNodeResponseItem.owner item,
                status = MixNodeResponseItem.status item,
                owner = MixNodeResponseItem.owner item,
                location = opt_or_str (Option.bind (MixNodeResponseItem.location item) country_name) '''',
                identity_key = opt_or_str (MixNode.identity_key mn) '''',
                bond = or_num totalBond (Fin 0),
                self_percentage = selfPercentage,
                host = opt_or_str (Option.bind (MixNodeResponseItem.mix_node item) MixNode.host) '''',
                layer = opt_or_str (MixNodeResponseItem.layer item) '''',
                profit_percentage = Number_toString profitPercentage @ ''%'',
                avg_uptime =
                  or_str (ToString (num_field (MixNodeResponseItem.avg_uptime item)) @ ''%'')
                    ''-'',
                stake_saturation = saturation \<rparr>)))))))"

subsection \<open>The collection mapper\<close>

text \<open>
  \<^verbatim>\<open>Array.prototype.map\<close> calls the function on the elements from first to last and
  collects the results; the first call that throws ends it.
\<close>

fun map_result :: "('a \<Rightarrow> error + 'b) \<Rightarrow> 'a list \<Rightarrow> error + 'b list" where
  "map_result f [] = Inr []"
| "map_result f (x # xs) =
     (case f x of
        Inl e \<Rightarrow> Inl e
      | Inr y \<Rightarrow> (case map_result f xs of Inl e \<Rightarrow> Inl e | Inr ys \<Rightarrow> Inr (y # ys)))"

text \<open>
  \<^verbatim>\<open>mixnodeToGridRow\<close>: the argument may be absent; an array, even an empty one, is
  truthy, so \<^verbatim>\<open>arrayOfMixnodes || []\<close> replaces only the absent argument.
\<close>

definition mixnodeToGridRow ::
    "'st MixNodeResponseItem list option \<Rightarrow> error + 'st MixnodeRowType list" where
  "mixnodeToGridRow arrayOfMixnodes =
     map_result mixNodeResponseItemToMixnodeRowType
       (case arrayOfMixnodes of None \<Rightarrow> [] | Some xs \<Rightarrow> xs)"

subsection \<open>Sample records\<close>

text \<open>A record with every field present, one with every optional field absent and
  amounts that are no numerals, one with zero amounts and a zero stake saturation, and
  one whose pledge amount reads \<^verbatim>\<open>Infinity\<close>.\<close>

definition typical_item :: "string MixNodeResponseItem" where
  "typical_item =
     \<lparr> MixNodeResponseItem.owner = ''n1owner'',
       MixNodeResponseItem.status = ''active'',
       mix_node = Some \<lparr> MixNode.identity_key = Some ''idkey'',
                          MixNode.host = Some ''1.2.3.4'',
                          profit_margin_percent = Some (Fin 10) \<rparr>,
       pledge_amount = Some \<lparr> amount = ''600'' \<rparr>,
       total_delegation = Some \<lparr> amount = ''400'' \<rparr>,
       MixNodeResponseItem.location = Some \<lparr> country_name = Some ''Norway'' \<rparr>,
       MixNodeResponseItem.layer = Some ''2'',
       MixNodeResponseItem.avg_uptime = Some (Fin 99),
       MixNodeResponseItem.stake_saturation = Some (Number ''0.8552'') \<rparr>"

definition bare_item :: "string MixNodeResponseItem" where
  "bare_item =
     \<lparr> MixNodeResponseItem.owner = ''n1bare'',
       MixNodeResponseItem.status = ''inactive'',
       mix_node = Some \<lparr> MixNode.identity_key = None,
                          MixNode.host = None,
                          profit_margin_percent = None \<rparr>,
       pledge_amount = Some \<lparr> amount = ''abc'' \<rparr>,
       total_delegation = Some \<lparr> amount = '''' \<rparr>,
       MixNodeResponseItem.location = None,
       MixNodeResponseItem.layer = None,
       MixNodeResponseItem.avg_uptime = None,
       MixNodeResponseItem.stake_saturation = None \<rparr>"

definition zero_item :: "string MixNodeResponseItem" where
  "zero_item =
     \<lparr> MixNodeResponseItem.owner = ''n1zero'',
       MixNodeResponseItem.status = ''standby'',
       mix_node = Some \<lparr> MixNode.identity_key = Some ''idkey'',
                          MixNode.host = Some ''1.2.3.4'',
                          profit_margin_percent = None \<rparr>,
       pledge_amount = Some \<lparr> amount = ''0'' \<rparr>,
       total_delegation = Some \<lparr> amount = ''0'' \<rparr>,
       MixNodeResponseItem.location = Some \<lparr> country_name = None \<rparr>,
       MixNodeResponseItem.layer = Some ''1'',
       MixNodeResponseItem.avg_uptime = None,
       MixNodeResponseItem.stake_saturation = Some (Fin 0) \<rparr>"

definition infinite_item :: "string MixNodeResponseItem" where
  "infinite_item =
     \<lparr> MixNodeResponseItem.owner = ''n1inf'',
       MixNodeResponseItem.status = ''active'',
       mix_node = Some \<lparr> MixNode.identity_key = Some ''idkey'',
                          MixNode.host = Some ''1.2.3.4'',
                          profit_margin_percent = None \<rparr>,
       pledge_amount = Some \<lparr> amount = ''Infinity'' \<rparr>,
       total_delegation = Some \<lparr> amount = ''0'' \<rparr>,
       MixNodeResponseItem.location = None,
       MixNodeResponseItem.layer = Some ''1'',
       MixNodeResponseItem.avg_uptime = None,
       MixNodeResponseItem.stake_saturation = None \<rparr>"

definition malformed_item :: "string MixNodeResponseItem" where
  "malformed_item =
     \<lparr> MixNodeResponseItem.owner = ''n1bad'',
       MixNodeResponseItem.status = ''inactive'',
       mix_node = Some \<lparr> MixNode.identity_key = None,
                          MixNode.host = None,
                          profit_margin_percent = None \<rparr>,
       pledge_amount = Some \<lparr> amount = ''abc'' \<rparr>,
       total_delegation = Some \<lparr> amount = ''1.2.3'' \<rparr>,
       MixNodeResponseItem.location = None,
       MixNodeResponseItem.layer = None,
       MixNodeResponseItem.avg_uptime = None,
       MixNodeResponseItem.stake_saturation = None \<rparr>"

definition nodeless_item :: "string MixNodeResponseItem" where
  "nodeless_item =
     \<lparr> MixNodeResponseItem.owner = ''n1nonode'',
       MixNodeResponseItem.status = ''active'',
       mix_node = None,
       pledge_amount = Some \<lparr> amount = ''600'' \<rparr>,
       total_delegation = Some \<lparr> amount = ''400'' \<rparr>,
       MixNodeResponseItem.location = Some \<lparr> country_name = Some ''Norway'' \<rparr>,
       MixNodeResponseItem.layer = Some ''2'',
       MixNodeResponseItem.avg_uptime = Some (Fin 99),
       MixNodeResponseItem.stake_saturation = None \<rparr>"

section \<open>Evaluation\<close>

lemma floor_rat_numeral: "\<lfloor>(numeral a :: rat) / numeral b\<rfloor> = numeral a div numeral b"
  using floor_divide_of_int_eq [of "numeral a" "numeral b", where ?'a = rat] by simp

lemma floor_rat_one_numeral: "\<lfloor>(1 :: rat) / numeral b\<rfloor> = 1 div numeral b"
  using floor_divide_of_int_eq [of 1 "numeral b", where ?'a = rat] by simp

lemmas round_eval =
  round_double_def round_mag_def ilog_def ndigits.simps round_half_even_def Let_def
  floor_rat_numeral floor_rat_one_numeral

lemmas Number_eval =
  Number_def trim_def is_ws_def radix_of_def parse_decimal_def is_digit_def digit_of_def
  digits_val_def parse_exponent_def signed_zero_def signed_inf_def

lemmas toFixed_eval =
  toFixed_def toFixed_digits_def is_finite_def is_nan_def is_inf_def Let_def
  dec_digits.simps digit_char_def char_of_def floor_rat_numeral floor_rat_one_numeral

lemmas toString_eval =
  toString_pos_def digits_at_def dec_digits.simps digit_char_def char_of_def numeral_eq_Suc

lemmas num_eval =
  num_mul_def num_div_def is_nan_def is_inf_def is_zero_def signed_zero_def signed_inf_def
  truthy_num_def or_num_def

lemma Number_600: "Number ''600'' = Fin 600"
  by (simp add: Number_eval round_eval)

lemma Number_400: "Number ''400'' = Fin 400"
  by (simp add: Number_eval round_eval)

lemma Number_0: "Number ''0'' = Fin 0"
  by (simp add: Number_eval)

lemma Number_empty: "Number '''' = Fin 0"
  by (simp add: Number_eval)

lemma Number_abc: "Number ''abc'' = NaN"
  by (simp add: Number_eval)

lemma Number_1_2_3: "Number ''1.2.3'' = NaN"
  by (simp add: Number_eval)

lemma Number_Infinity: "Number ''Infinity'' = PInf"
  by (simp add: Number_eval)

lemma Number_08552: "Number ''0.8552'' = Fin (240717400082953 / 281474976710656)"
  by (simp add: Number_eval round_eval)

lemma round_double_1000: "round_double 1000 = Fin 1000"
  by (simp add: round_eval)

lemma mul_600_100: "num_mul (Fin 600) (Fin 100) = Fin 60000"
  by (simp add: num_eval round_eval)

lemma div_60000_1000: "num_div (Fin 60000) (Fin 1000) = Fin 60"
  by (simp add: num_eval round_eval)

lemma toFixed_60: "toFixed (Fin 60) 2 = Inr ''60.00''"
  by (simp add: toFixed_eval)

lemma mul_08552_100:
  "num_mul (Fin (240717400082953 / 281474976710656)) (Fin 100) =
     Fin (6017935002073825 / 70368744177664)"
  by (simp add: num_eval round_eval)

lemma toFixed_8552: "toFixed (Fin (6017935002073825 / 70368744177664)) 2 = Inr ''85.52''"
  by (simp add: toFixed_eval)

lemma toFixed_zero: "toFixed (Fin 0) 2 = Inr ''0.00''"
  by (simp add: toFixed_eval)

lemma toFixed_NaN: "toFixed NaN 2 = Inr ''NaN''"
  by (simp add: toFixed_def is_finite_def is_nan_def)

lemma toString_pos_10: "toString_pos 10 = ''10''"
  by (simp add: toString_eval round_eval)

lemma toString_pos_99: "toString_pos 99 = ''99''"
  by (simp add: toString_eval round_eval)

lemma zero_plus_zero: "or_num (num_add (Fin 0) (Fin 0)) (Fin 0) = Fin 0"
  by (simp add: round_double_def or_num_def)

lemma zero_over_zero:
  "toFixed (num_div (num_mul (Fin 0) (Fin 100)) (num_add (Fin 0) (Fin 0))) 2 = Inr ''NaN''"
  by (simp add: num_eval round_double_def toFixed_NaN)

lemma typical_item_row:
  "mixNodeResponseItemToMixnodeRowType typical_item =
     Inr \<lparr> id' = ''n1owner'', status = ''active'', owner = ''n1owner'',
           location = ''Norway'', identity_key = ''idkey'', bond = Fin 1000,
           self_percentage = ''60.00'', host = ''1.2.3.4'', layer = ''2'',
           profit_percentage = ''10%'', avg_uptime = ''99%'',
           stake_saturation = ''85.52 %'' \<rparr>"
  by (simp add: mixNodeResponseItemToMixnodeRowType_def typical_item_def
      Number_600 Number_400 Number_08552 round_double_1000 mul_600_100 div_60000_1000 toFixed_60
      mul_08552_100 toFixed_8552 toString_pos_10 toString_pos_99
      or_num_def opt_or_num_def or_str_def opt_or_str_def truthy_num_def is_zero_def
      is_nan_def js_or_def num_field_def stake_saturation_text_def Let_def)

lemma bare_item_row:
  "mixNodeResponseItemToMixnodeRowType bare_item =
     Inr \<lparr> id' = ''n1bare'', status = ''inactive'', owner = ''n1bare'',
           location = '''', identity_key = '''', bond = Fin 0,
           self_percentage = ''NaN'', host = '''', layer = '''',
           profit_percentage = ''0%'', avg_uptime = ''undefined%'',
           stake_saturation = ''-'' \<rparr>"
  by (simp add: mixNodeResponseItemToMixnodeRowType_def bare_item_def
      Number_abc Number_empty toFixed_NaN num_eval round_double_def
      opt_or_num_def or_str_def opt_or_str_def
      js_or_def num_field_def stake_saturation_text_def Let_def)

lemma zero_item_row:
  "mixNodeResponseItemToMixnodeRowType zero_item =
     Inr \<lparr> id' = ''n1zero'', status = ''standby'', owner = ''n1zero'',
           location = '''', identity_key = ''idkey'', bond = Fin 0,
           self_percentage = ''NaN'', host = ''1.2.3.4'', layer = ''1'',
           profit_percentage = ''0%'', avg_uptime = ''undefined%'',
           stake_saturation = ''-'' \<rparr>"
  by (simp add: mixNodeResponseItemToMixnodeRowType_def zero_item_def
      Number_0 toFixed_NaN num_eval round_double_def
      opt_or_num_def or_str_def opt_or_str_def
      js_or_def num_field_def stake_saturation_text_def Let_def)

lemma infinite_item_row:
  "mixNodeResponseItemToMixnodeRowType infinite_item =
     Inr \<lparr> id' = ''n1inf'', status = ''active'', owner = ''n1inf'',
           location = '''', identity_key = ''idkey'', bond = PInf,
           self_percentage = ''NaN'', host = ''1.2.3.4'', layer = ''1'',
           profit_percentage = ''0%'', avg_uptime = ''undefined%'',
           stake_saturation = ''-'' \<rparr>"
  by (simp add: mixNodeResponseItemToMixnodeRowType_def infinite_item_def
      Number_0 Number_Infinity toFixed_NaN num_eval
      opt_or_num_def or_str_def opt_or_str_def
      js_or_def num_field_def stake_saturation_text_def Let_def)

section \<open>Properties\<close>

subsection \<open>What the two functions compute\<close>

lemma toFixed_two: "\<exists>s. toFixed x 2 = Inr s"
  by (simp add: toFixed_def Let_def)

lemma stake_saturation_text_total: "\<exists>s. stake_saturation_text v = Inr s"
proof (cases "typeof v = ''number''")
  case True
  obtain s where "toFixed (num_mul (ToNumber v) (Fin 100)) 2 = Inr s"
    using toFixed_two by blast
  with True show ?thesis by (simp add: stake_saturation_text_def)
next
  case False
  then show ?thesis by (simp add: stake_saturation_text_def)
qed

text \<open>A record with its three required objects is mapped to a row.\<close>

lemma row_exists:
  assumes "well_shaped item"
  shows "\<exists>row. mixNodeResponseItemToMixnodeRowType item = Inr row"
proof -
  from assms obtain pa td mn where
    pa: "MixNodeResponseItem.pledge_amount item = Some pa" and
    td: "MixNodeResponseItem.total_delegation item = Some td" and
    mn: "MixNodeResponseItem.mix_node item = Some mn"
    by (auto simp: well_shaped_def)
  obtain sp where sp:
    "toFixed (num_div (num_mul (or_num (Number (amount pa)) (Fin 0)) (Fin 100))
       (num_add (or_num (Number (amount pa)) (Fin 0)) (or_num (Number (amount td)) (Fin 0)))) 2
     = Inr sp"
    using toFixed_two by blast
  obtain sat where sat:
    "stake_saturation_text
       (js_or (num_field (MixNodeResponseItem.stake_saturation item)) (Str '''')) = Inr sat"
    using stake_saturation_text_total by blast
  show ?thesis
    by (simp add: mixNodeResponseItemToMixnodeRowType_def pa td mn sp sat Let_def)
qed

text \<open>Conversely, a row comes from a record with the three objects, and is this one.\<close>

lemma row_cases:
  assumes "mixNodeResponseItemToMixnodeRowType item = Inr row"
  obtains pa td mn sp sat where
    "MixNodeResponseItem.pledge_amount item = Some pa"
    "MixNodeResponseItem.total_delegation item = Some td"
    "MixNodeResponseItem.mix_node item = Some mn"
    "toFixed (num_div (num_mul (or_num (Number (amount pa)) (Fin 0)) (Fin 100))
       (num_add (or_num (Number (amount pa)) (Fin 0)) (or_num (Number (amount td)) (Fin 0)))) 2
     = Inr sp"
    "stake_saturation_text
       (js_or (num_field (MixNodeResponseItem.stake_saturation item)) (Str '''')) = Inr sat"
    "row =
       \<lparr> id' = MixNodeResponseItem.owner item,
         status = MixNodeResponseItem.status item,
         owner = MixNodeResponseItem.owner item,
         location = opt_or_str (Option.bind (MixNodeResponseItem.location item) country_name) '''',
         identity_key = opt_or_str (MixNode.identity_key mn) '''',
         bond =
           or_num (num_add (or_num (Number (amount pa)) (Fin 0))
             (or_num (Number (amount td)) (Fin 0))) (Fin 0),
         self_percentage = sp,
         host = opt_or_str (MixNode.host mn) '''',
         layer = opt_or_str (MixNodeResponseItem.layer item) '''',
         profit_percentage =
           Number_toString (opt_or_num (profit_margin_percent mn) (Fin 0)) @ ''%'',
         avg_uptime =
           or_str (ToString (num_field (MixNodeResponseItem.avg_uptime item)) @ ''%'') ''-'',
         stake_saturation = sat \<rparr>"
  using assms unfolding mixNodeResponseItemToMixnodeRowType_def Let_def
  by (auto split: option.splits sum.splits)

lemma well_shaped_of_row:
  "mixNodeResponseItemToMixnodeRowType item = Inr row \<Longrightarrow> well_shaped item"
  by (erule row_cases) (simp add: well_shaped_def)

text \<open>
  Without one of the three objects there is no row: the read of its field throws.
\<close>

lemma missing_object_throws:
  assumes "\<not> well_shaped item"
  shows "mixNodeResponseItemToMixnodeRowType item = Inl TypeError"
proof -
  obtain sp where sp:
    "\<And>x. toFixed x 2 = Inr (sp x)"
    using toFixed_two by metis
  from assms show ?thesis
    unfolding mixNodeResponseItemToMixnodeRowType_def well_shaped_def Let_def
    by (auto simp: sp split: option.splits)
qed

lemma nodeless_item_throws:
  "mixNodeResponseItemToMixnodeRowType nodeless_item = Inl TypeError"
  by (rule missing_object_throws) (simp add: well_shaped_def nodeless_item_def)

lemma map_result_Inr:
  "map_result f xs = Inr ys \<longleftrightarrow> list_all2 (\<lambda>x y. f x = Inr y) xs ys"
proof
  show "map_result f xs = Inr ys \<Longrightarrow> list_all2 (\<lambda>x y. f x = Inr y) xs ys"
    by (induction xs arbitrary: ys) (auto split: sum.splits)
  show "list_all2 (\<lambda>x y. f x = Inr y) xs ys \<Longrightarrow> map_result f xs = Inr ys"
    by (induction rule: list_all2_induct) auto
qed

lemma map_result_total:
  "(\<And>x. x \<in> set xs \<Longrightarrow> \<exists>y. f x = Inr y) \<Longrightarrow> \<exists>ys. map_result f xs = Inr ys"
proof (induction xs)
  case Nil
  show ?case by simp
next
  case (Cons x xs)
  obtain y where "f x = Inr y" using Cons.prems by auto
  moreover obtain ys where "map_result f xs = Inr ys" using Cons by auto
  ultimately show ?case by simp
qed

lemma opt_or_str_eq: "opt_or_str a '''' = (case a of None \<Rightarrow> '''' | Some s \<Rightarrow> s)"
  by (simp add: opt_or_str_def or_str_def split: option.splits)

lemma or_num_zero:
  "or_num x (Fin 0) = (if is_nan x \<or> is_zero x then Fin 0 else x)"
  by (auto simp: or_num_def truthy_num_def)

lemma stake_saturation_text_absent:
  "stake_saturation_text (js_or (num_field None) (Str '''')) = Inr ''-''"
  by (simp add: stake_saturation_text_def js_or_def num_field_def)

lemma stake_saturation_text_falsy:
  "is_zero x \<or> is_nan x \<Longrightarrow>
     stake_saturation_text (js_or (num_field (Some x)) (Str '''')) = Inr ''-''"
  by (auto simp: stake_saturation_text_def js_or_def num_field_def truthy_num_def)

lemma stake_saturation_text_truthy:
  "\<not> is_zero x \<Longrightarrow> \<not> is_nan x \<Longrightarrow>
     stake_saturation_text (js_or (num_field (Some x)) (Str '''')) =
       (case toFixed (num_mul x (Fin 100)) 2 of Inl e \<Rightarrow> Inl e | Inr s \<Rightarrow> Inr (s @ '' %''))"
  by (simp add: stake_saturation_text_def js_or_def num_field_def truthy_num_def)

text \<open>Below \<open>10^21\<close>, \<^verbatim>\<open>toFixed(2)\<close> prints two characters after a point.\<close>

lemma toFixed_digits_two:
  "\<exists>a b. toFixed_digits 2 x = a @ ''.'' @ b \<and> a \<noteq> [] \<and> length b = 2"
proof -
  define m where "m = (if \<lfloor>x * 10 ^ 2 + 1 / 2\<rfloor> = 0 then ''0'' else dec_digits \<lfloor>x * 10 ^ 2 + 1 / 2\<rfloor>)"
  define m' where "m' = (if length m \<le> 2 then replicate (2 + 1 - length m) CHR ''0'' @ m else m)"
  have len: "3 \<le> length m'"
    by (auto simp: m'_def)
  have "toFixed_digits 2 x = take (length m' - 2) m' @ ''.'' @ drop (length m' - 2) m'"
    by (simp add: toFixed_digits_def Let_def m_def m'_def)
  moreover have "take (length m' - 2) m' \<noteq> []"
    using len by auto
  moreover have "length (drop (length m' - 2) m') = 2"
    using len by simp
  ultimately show ?thesis by blast
qed

lemma toFixed_two_decimals:
  assumes "is_finite x" and "\<bar>to_rat x\<bar> < 10 ^ 21"
  shows "\<exists>a b. toFixed x 2 = Inr (a @ ''.'' @ b) \<and> length b = 2"
proof -
  obtain a b where "toFixed_digits 2 \<bar>to_rat x\<bar> = a @ ''.'' @ b" and "length b = 2"
    using toFixed_digits_two by blast
  with assms have
    "toFixed x 2 = Inr (((if to_rat x < 0 then ''-'' else '''') @ a) @ ''.'' @ b) \<and> length b = 2"
    by (simp add: toFixed_def Let_def)
  then show ?thesis by blast
qed

text \<open>The fields of a row, one lemma each.\<close>

lemma row_bond:
  assumes "mixNodeResponseItemToMixnodeRowType item = Inr row"
    and "MixNodeResponseItem.pledge_amount item = Some pa"
    and "MixNodeResponseItem.total_delegation item = Some td"
  shows "bond row =
           or_num (num_add (or_num (Number (amount pa)) (Fin 0))
             (or_num (Number (amount td)) (Fin 0))) (Fin 0)"
  using assms by (elim row_cases) simp

lemma row_self_percentage:
  assumes "mixNodeResponseItemToMixnodeRowType item = Inr row"
    and "MixNodeResponseItem.pledge_amount item = Some pa"
    and "MixNodeResponseItem.total_delegation item = Some td"
  shows "toFixed (num_div (num_mul (or_num (Number (amount pa)) (Fin 0)) (Fin 100))
           (num_add (or_num (Number (amount pa)) (Fin 0)) (or_num (Number (amount td)) (Fin 0)))) 2
         = Inr (self_percentage row)"
  using assms by (elim row_cases) simp

lemma row_stake_saturation:
  assumes "mixNodeResponseItemToMixnodeRowType item = Inr row"
  shows "stake_saturation_text
           (js_or (num_field (MixNodeResponseItem.stake_saturation item)) (Str ''''))
         = Inr (stake_saturation row)"
  using assms by (elim row_cases) simp

lemma row_avg_uptime:
  assumes "mixNodeResponseItemToMixnodeRowType item = Inr row"
  shows "avg_uptime row =
           or_str (ToString (num_field (MixNodeResponseItem.avg_uptime item)) @ ''%'') ''-''"
  using assms by (elim row_cases) simp

lemma row_location:
  assumes "mixNodeResponseItemToMixnodeRowType item = Inr row"
  shows "location row = opt_or_str (Option.bind (MixNodeResponseItem.location item) country_name) ''''"
  using assms by (elim row_cases) simp

lemma row_layer:
  assumes "mixNodeResponseItemToMixnodeRowType item = Inr row"
  shows "layer row = opt_or_str (MixNodeResponseItem.layer item) ''''"
  using assms by (elim row_cases) simp

lemma row_identity_key:
  assumes "mixNodeResponseItemToMixnodeRowType item = Inr row"
    and "MixNodeResponseItem.mix_node item = Some mn"
  shows "identity_key row = opt_or_str (MixNode.identity_key mn) ''''"
  using assms by (elim row_cases) simp

lemma row_host:
  assumes "mixNodeResponseItemToMixnodeRowType item = Inr row"
    and "MixNodeResponseItem.mix_node item = Some mn"
  shows "host row = opt_or_str (MixNode.host mn) ''''"
  using assms by (elim row_cases) simp

lemma row_profit_percentage:
  assumes "mixNodeResponseItemToMixnodeRowType item = Inr row"
    and "MixNodeResponseItem.mix_node item = Some mn"
  shows "profit_percentage row =
           Number_toString (opt_or_num (profit_margin_percent mn) (Fin 0)) @ ''%''"
  using assms by (elim row_cases) simp

subsection \<open>The collection mapper\<close>

text \<open>
  Claim C1. For every sequence of records, \<^verbatim>\<open>mixnodeToGridRow\<close> returns one row per
  record, in the order of the input, and the \<open>i\<close>-th row is what the row mapper makes
  of the \<open>i\<close>-th record alone. A sequence of records that all have their required objects
  is mapped to such a sequence of rows; and whatever sequence of rows is returned has the
  length of the input and holds, at every index, the row of the record at that index.
\<close>

theorem mixnodeToGridRow_row_per_record:
  "(list_all well_shaped xs \<longrightarrow> (\<exists>rows. mixnodeToGridRow (Some xs) = Inr rows)) \<and>
   (\<forall>rows. mixnodeToGridRow (Some xs) = Inr rows \<longrightarrow>
      length rows = length xs \<and>
      (\<forall>i<length xs. mixNodeResponseItemToMixnodeRowType (xs ! i) = Inr (rows ! i)))"
proof -
  have total: "\<exists>rows. mixnodeToGridRow (Some xs) = Inr rows" if "list_all well_shaped xs"
  proof -
    from that have "\<And>x. x \<in> set xs \<Longrightarrow> \<exists>y. mixNodeResponseItemToMixnodeRowType x = Inr y"
      by (simp add: list_all_iff row_exists)
    then show ?thesis
      unfolding mixnodeToGridRow_def option.case by (rule map_result_total)
  qed
  have pointwise:
    "length rows = length xs \<and>
     (\<forall>i<length xs. mixNodeResponseItemToMixnodeRowType (xs ! i) = Inr (rows ! i))"
    if "mixnodeToGridRow (Some xs) = Inr rows" for rows
  proof -
    from that have "list_all2 (\<lambda>x y. mixNodeResponseItemToMixnodeRowType x = Inr y) xs rows"
      by (simp add: mixnodeToGridRow_def map_result_Inr)
    then show ?thesis
      by (simp add: list_all2_conv_all_nth)
  qed
  from total pointwise show ?thesis by blast
qed

theorem mixnodeToGridRow_row_per_record_witness:
  "list_all well_shaped [typical_item, bare_item] \<and>
   (\<exists>rows. mixnodeToGridRow (Some [typical_item, bare_item]) = Inr rows \<and>
      length rows = 2 \<and>
      mixNodeResponseItemToMixnodeRowType typical_item = Inr (rows ! 0) \<and>
      mixNodeResponseItemToMixnodeRowType bare_item = Inr (rows ! 1))"
proof -
  have ws: "list_all well_shaped [typical_item, bare_item]"
    by (simp add: well_shaped_def typical_item_def bare_item_def)
  note inst = mixnodeToGridRow_row_per_record [of "[typical_item, bare_item]"]
  from inst ws obtain rows where
    rows: "mixnodeToGridRow (Some [typical_item, bare_item]) = Inr rows"
    by blast
  with inst have len: "length rows = length [typical_item, bare_item]" and
    nth: "\<forall>i<length [typical_item, bare_item].
            mixNodeResponseItemToMixnodeRowType ([typical_item, bare_item] ! i) = Inr (rows ! i)"
    by blast+
  from nth [rule_format, of 0] nth [rule_format, of 1]
  have "mixNodeResponseItemToMixnodeRowType typical_item = Inr (rows ! 0)"
    and "mixNodeResponseItemToMixnodeRowType bare_item = Inr (rows ! 1)"
    by simp_all
  with ws rows len show ?thesis by auto
qed

text \<open>
  Claim C2. Called with an absent argument, \<^verbatim>\<open>mixnodeToGridRow\<close> returns the empty
  sequence of rows: a sequence, not an absent result and not an error.
\<close>

theorem mixnodeToGridRow_absent_input:
  "mixnodeToGridRow None = Inr []"
  by (simp add: mixnodeToGridRow_def)

subsection \<open>The row mapper never throws\<close>

text \<open>
  Claim C3, as the code has it. For every input record that has its node-info object,
  its pledge amount and its total-delegation amount, whatever the amount strings say and
  whichever of its optional fields are missing, \<^verbatim>\<open>mixNodeResponseItemToMixnodeRowType\<close>
  returns a row and throws nothing. An amount that is no number counts as 0 in the bond;
  a missing country, identity key, host or layer becomes the empty string; a missing
  profit margin becomes 0, printed \<^verbatim>\<open>0%\<close>; a missing stake saturation becomes the
  text \<^verbatim>\<open>-\<close>.
\<close>

theorem row_mapper_never_throws:
  assumes "well_shaped item"
  shows "\<exists>row. mixNodeResponseItemToMixnodeRowType item = Inr row \<and>
           (Option.bind (MixNodeResponseItem.location item) country_name = None \<longrightarrow>
              location row = '''') \<and>
           (MixNodeResponseItem.layer item = None \<longrightarrow> layer row = '''') \<and>
           (\<forall>mn. MixNodeResponseItem.mix_node item = Some mn \<and> MixNode.identity_key mn = None \<longrightarrow>
              identity_key row = '''') \<and>
           (\<forall>mn. MixNodeResponseItem.mix_node item = Some mn \<and> MixNode.host mn = None \<longrightarrow>
              host row = '''') \<and>
           (\<forall>mn. MixNodeResponseItem.mix_node item = Some mn \<and> profit_margin_percent mn = None \<longrightarrow>
              profit_percentage row = ''0%'') \<and>
           (MixNodeResponseItem.stake_saturation item = None \<longrightarrow> stake_saturation row = ''-'') \<and>
           (\<forall>pa td. MixNodeResponseItem.pledge_amount item = Some pa \<and>
                    MixNodeResponseItem.total_delegation item = Some td \<and>
                    is_nan (Number (amount pa)) \<longrightarrow>
                    bond row =
                      or_num (num_add (Fin 0) (or_num (Number (amount td)) (Fin 0))) (Fin 0)) \<and>
           (\<forall>pa td. MixNodeResponseItem.pledge_amount item = Some pa \<and>
                    MixNodeResponseItem.total_delegation item = Some td \<and>
                    is_nan (Number (amount td)) \<longrightarrow>
                    bond row =
                      or_num (num_add (or_num (Number (amount pa)) (Fin 0)) (Fin 0)) (Fin 0)) \<and>
           (\<forall>pa td. MixNodeResponseItem.pledge_amount item = Some pa \<and>
                    MixNodeResponseItem.total_delegation item = Some td \<and>
                    is_nan (Number (amount pa)) \<and> is_nan (Number (amount td)) \<longrightarrow>
                    bond row = Fin 0)"
proof -
  from assms obtain row where row: "mixNodeResponseItemToMixnodeRowType item = Inr row"
    using row_exists by blast
  have loc: "Option.bind (MixNodeResponseItem.location item) country_name = None \<longrightarrow>
               location row = ''''"
    by (simp add: row_location [OF row] opt_or_str_def)
  have lay: "MixNodeResponseItem.layer item = None \<longrightarrow> layer row = ''''"
    by (simp add: row_layer [OF row] opt_or_str_def)
  have idk: "\<forall>mn. MixNodeResponseItem.mix_node item = Some mn \<and> MixNode.identity_key mn = None \<longrightarrow>
               identity_key row = ''''"
    by (auto simp: row_identity_key [OF row] opt_or_str_def)
  have hst: "\<forall>mn. MixNodeResponseItem.mix_node item = Some mn \<and> MixNode.host mn = None \<longrightarrow>
               host row = ''''"
    by (auto simp: row_host [OF row] opt_or_str_def)
  have pfm: "\<forall>mn. MixNodeResponseItem.mix_node item = Some mn \<and> profit_margin_percent mn = None \<longrightarrow>
               profit_percentage row = ''0%''"
    by (auto simp: row_profit_percentage [OF row] opt_or_num_def)
  have sat: "MixNodeResponseItem.stake_saturation item = None \<longrightarrow> stake_saturation row = ''-''"
    using row_stake_saturation [OF row] by (auto simp: stake_saturation_text_absent)
  have bnd1: "\<forall>pa td. MixNodeResponseItem.pledge_amount item = Some pa \<and>
                    MixNodeResponseItem.total_delegation item = Some td \<and>
                    is_nan (Number (amount pa)) \<longrightarrow>
                    bond row =
                      or_num (num_add (Fin 0) (or_num (Number (amount td)) (Fin 0))) (Fin 0)"
    by (auto simp: row_bond [OF row] or_num_zero)
  have bnd2: "\<forall>pa td. MixNodeResponseItem.pledge_amount item = Some pa \<and>
                    MixNodeResponseItem.total_delegation item = Some td \<and>
                    is_nan (Number (amount td)) \<longrightarrow>
                    bond row =
                      or_num (num_add (or_num (Number (amount pa)) (Fin 0)) (Fin 0)) (Fin 0)"
    by (auto simp: row_bond [OF row] or_num_zero)
  have bnd: "\<forall>pa td. MixNodeResponseItem.pledge_amount item = Some pa \<and>
                    MixNodeResponseItem.total_delegation item = Some td \<and>
                    is_nan (Number (amount pa)) \<and> is_nan (Number (amount td)) \<longrightarrow>
                    bond row = Fin 0"
    by (auto simp: row_bond [OF row] or_num_zero round_double_def)
  from row loc lay idk hst pfm sat bnd1 bnd2 bnd show ?thesis
    by (intro exI [of _ row] conjI)
qed

theorem row_mapper_never_throws_witness:
  "well_shaped malformed_item \<and>
   is_nan (Number ''abc'') \<and> is_nan (Number ''1.2.3'') \<and>
   (\<exists>row. mixNodeResponseItemToMixnodeRowType malformed_item = Inr row \<and>
      location row = '''' \<and> layer row = '''' \<and> identity_key row = '''' \<and> host row = '''' \<and>
      profit_percentage row = ''0%'' \<and> stake_saturation row = ''-'' \<and> bond row = Fin 0)"
proof -
  have ws: "well_shaped malformed_item"
    by (simp add: well_shaped_def malformed_item_def)
  have nan: "is_nan (Number ''abc'')" "is_nan (Number ''1.2.3'')"
    by (simp_all add: Number_abc Number_1_2_3 is_nan_def)
  have fields:
    "Option.bind (MixNodeResponseItem.location malformed_item) country_name = None"
    "MixNodeResponseItem.layer malformed_item = None"
    "MixNodeResponseItem.stake_saturation malformed_item = None"
    "MixNodeResponseItem.pledge_amount malformed_item = Some \<lparr> amount = ''abc'' \<rparr>"
    "MixNodeResponseItem.total_delegation malformed_item = Some \<lparr> amount = ''1.2.3'' \<rparr>"
    "MixNodeResponseItem.mix_node malformed_item =
       Some \<lparr> MixNode.identity_key = None, MixNode.host = None, profit_margin_percent = None \<rparr>"
    by (simp_all add: malformed_item_def)
  from row_mapper_never_throws [OF ws] obtain row where
    row: "mixNodeResponseItemToMixnodeRowType malformed_item = Inr row" and
    rest: "location row = ''''" "layer row = ''''" "identity_key row = ''''" "host row = ''''"
      "profit_percentage row = ''0%''" "stake_saturation row = ''-''" "bond row = Fin 0"
    using fields nan by (elim exE conjE) simp
  with ws nan show ?thesis by blast
qed

text \<open>
  Claim C3 as the spec words it fails twice. A record with every required object and no
  average uptime gets a row whose average uptime reads \<^verbatim>\<open>undefined%\<close> and whose self
  percentage reads \<^verbatim>\<open>NaN\<close>: neither is 0, the empty string or \<^verbatim>\<open>-\<close>. And a record
  without its node-info object gets no row: the read of
  \<^verbatim>\<open>item.mix_node.profit_margin_percent\<close> throws.
\<close>

theorem row_mapper_defaults_counterexample:
  "well_shaped bare_item \<and>
   MixNodeResponseItem.avg_uptime bare_item = None \<and>
   mixNodeResponseItemToMixnodeRowType bare_item =
     Inr \<lparr> id' = ''n1bare'', status = ''inactive'', owner = ''n1bare'',
           location = '''', identity_key = '''', bond = Fin 0,
           self_percentage = ''NaN'', host = '''', layer = '''',
           profit_percentage = ''0%'', avg_uptime = ''undefined%'',
           stake_saturation = ''-'' \<rparr> \<and>
   MixNodeResponseItem.mix_node nodeless_item = None \<and>
   mixNodeResponseItemToMixnodeRowType nodeless_item = Inl TypeError"
  using bare_item_row nodeless_item_throws
  by (simp add: well_shaped_def bare_item_def nodeless_item_def)

subsection \<open>Bond and self percentage\<close>

text \<open>
  Claim C4, as the code has it. The pledge and the delegation amount strings are
  converted to numbers, with 0 in place of a result that is not a number (a zero of
  either sign is the positive zero); the bond is their sum, and 0 when that sum is not a
  number (or a zero). A sum that is an infinity is kept: only NaN falls back to 0.
\<close>

theorem bond_is_sum_nan_to_zero:
  assumes "mixNodeResponseItemToMixnodeRowType item = Inr row"
    and "MixNodeResponseItem.pledge_amount item = Some pa"
    and "MixNodeResponseItem.total_delegation item = Some td"
    and "pledge =
           (if is_nan (Number (amount pa)) \<or> is_zero (Number (amount pa)) then Fin 0
            else Number (amount pa))"
    and "delegations =
           (if is_nan (Number (amount td)) \<or> is_zero (Number (amount td)) then Fin 0
            else Number (amount td))"
  shows "(is_nan (num_add pledge delegations) \<longrightarrow> bond row = Fin 0) \<and>
         (is_zero (num_add pledge delegations) \<longrightarrow> bond row = Fin 0) \<and>
         (\<not> is_nan (num_add pledge delegations) \<and> \<not> is_zero (num_add pledge delegations) \<longrightarrow>
            bond row = num_add pledge delegations)"
proof -
  have "pledge = or_num (Number (amount pa)) (Fin 0)"
    and "delegations = or_num (Number (amount td)) (Fin 0)"
    using assms(4,5) by (simp_all only: or_num_zero)
  then have "bond row = or_num (num_add pledge delegations) (Fin 0)"
    using row_bond [OF assms(1-3)] by simp
  then show ?thesis
    by (simp add: or_num_zero)
qed

theorem bond_is_sum_nan_to_zero_witness:
  "mixNodeResponseItemToMixnodeRowType typical_item =
     Inr \<lparr> id' = ''n1owner'', status = ''active'', owner = ''n1owner'',
           location = ''Norway'', identity_key = ''idkey'', bond = Fin 1000,
           self_percentage = ''60.00'', host = ''1.2.3.4'', layer = ''2'',
           profit_percentage = ''10%'', avg_uptime = ''99%'',
           stake_saturation = ''85.52 %'' \<rparr> \<and>
   MixNodeResponseItem.pledge_amount typical_item = Some \<lparr> amount = ''600'' \<rparr> \<and>
   MixNodeResponseItem.total_delegation typical_item = Some \<lparr> amount = ''400'' \<rparr> \<and>
   num_add (Fin 600) (Fin 400) = Fin 1000 \<and>
   \<not> is_nan (Fin 1000) \<and> \<not> is_zero (Fin 1000)"
proof -
  have pa: "MixNodeResponseItem.pledge_amount typical_item = Some \<lparr> amount = ''600'' \<rparr>"
    and td: "MixNodeResponseItem.total_delegation typical_item = Some \<lparr> amount = ''400'' \<rparr>"
    by (simp_all add: typical_item_def)
  have p: "Fin 600 =
      (if is_nan (Number (amount \<lparr> amount = ''600'' \<rparr>)) \<or>
          is_zero (Number (amount \<lparr> amount = ''600'' \<rparr>)) then Fin 0
       else Number (amount \<lparr> amount = ''600'' \<rparr>))"
    by (simp add: Number_600 is_nan_def is_zero_def)
  have d: "Fin 400 =
      (if is_nan (Number (amount \<lparr> amount = ''400'' \<rparr>)) \<or>
          is_zero (Number (amount \<lparr> amount = ''400'' \<rparr>)) then Fin 0
       else Number (amount \<lparr> amount = ''400'' \<rparr>))"
    by (simp add: Number_400 is_nan_def is_zero_def)
  from bond_is_sum_nan_to_zero [OF typical_item_row pa td p d] typical_item_row pa td
  show ?thesis
    by (simp add: round_double_1000 is_nan_def is_zero_def)
qed

text \<open>
  Claim C4 as the spec words it, that a sum which is not finite gives the bond 0, fails
  for a pledge amount that reads \<^verbatim>\<open>Infinity\<close>: the sum is the positive infinity, and
  so is the bond.
\<close>

theorem bond_infinite_sum_counterexample:
  "num_add (or_num (Number ''Infinity'') (Fin 0)) (or_num (Number ''0'') (Fin 0)) = PInf \<and>
   \<not> is_finite PInf \<and>
   mixNodeResponseItemToMixnodeRowType infinite_item =
     Inr \<lparr> id' = ''n1inf'', status = ''active'', owner = ''n1inf'',
           location = '''', identity_key = ''idkey'', bond = PInf,
           self_percentage = ''NaN'', host = ''1.2.3.4'', layer = ''1'',
           profit_percentage = ''0%'', avg_uptime = ''undefined%'',
           stake_saturation = ''-'' \<rparr>"
  using infinite_item_row
  by (simp add: Number_Infinity Number_0 num_eval is_finite_def)

text \<open>
  Claim C5. A record whose pledge amount is \<^verbatim>\<open>"600"\<close> and whose total delegation is
  \<^verbatim>\<open>"400"\<close> gives a row with bond 1000 and self percentage \<^verbatim>\<open>"60.00"\<close>.
\<close>

theorem bond_1000_self_percentage_60:
  assumes "MixNodeResponseItem.pledge_amount item = Some pa" and "amount pa = ''600''"
    and "MixNodeResponseItem.total_delegation item = Some td" and "amount td = ''400''"
    and "MixNodeResponseItem.mix_node item \<noteq> None"
  shows "\<exists>row. mixNodeResponseItemToMixnodeRowType item = Inr row \<and>
           bond row = Fin 1000 \<and> self_percentage row = ''60.00''"
proof -
  have "well_shaped item"
    using assms by (simp add: well_shaped_def)
  then obtain row where row: "mixNodeResponseItemToMixnodeRowType item = Inr row"
    using row_exists by blast
  have pledge: "or_num (Number (amount pa)) (Fin 0) = Fin 600"
    and delegations: "or_num (Number (amount td)) (Fin 0) = Fin 400"
    using assms by (simp_all add: Number_600 Number_400 or_num_zero is_nan_def is_zero_def)
  have "bond row = or_num (num_add (Fin 600) (Fin 400)) (Fin 0)"
    using row_bond [OF row assms(1) assms(3)] unfolding pledge delegations .
  then have "bond row = Fin 1000"
    by (simp add: round_double_1000 or_num_zero is_nan_def is_zero_def)
  moreover have
    "toFixed (num_div (num_mul (Fin 600) (Fin 100)) (num_add (Fin 600) (Fin 400))) 2 =
       Inr (self_percentage row)"
    using row_self_percentage [OF row assms(1) assms(3)] unfolding pledge delegations .
  then have "self_percentage row = ''60.00''"
    by (simp add: round_double_1000 mul_600_100 div_60000_1000 toFixed_60)
  ultimately show ?thesis
    using row by (intro exI [of _ row]) simp
qed

theorem bond_1000_self_percentage_60_witness:
  "MixNodeResponseItem.pledge_amount typical_item = Some \<lparr> amount = ''600'' \<rparr> \<and>
   MixNodeResponseItem.total_delegation typical_item = Some \<lparr> amount = ''400'' \<rparr> \<and>
   MixNodeResponseItem.mix_node typical_item \<noteq> None \<and>
   (\<exists>row. mixNodeResponseItemToMixnodeRowType typical_item = Inr row \<and>
      bond row = Fin 1000 \<and> self_percentage row = ''60.00'')"
proof -
  have pa: "MixNodeResponseItem.pledge_amount typical_item = Some \<lparr> amount = ''600'' \<rparr>"
    and td: "MixNodeResponseItem.total_delegation typical_item = Some \<lparr> amount = ''400'' \<rparr>"
    and mn: "MixNodeResponseItem.mix_node typical_item \<noteq> None"
    by (simp_all add: typical_item_def)
  have a: "amount \<lparr> amount = ''600'' \<rparr> = ''600''" and b: "amount \<lparr> amount = ''400'' \<rparr> = ''400''"
    by simp_all
  from bond_1000_self_percentage_60 [OF pa a td b mn] pa td mn show ?thesis
    by simp
qed

text \<open>
  Claim C9. When the pledge and the delegations, as the function computes them from the
  amount strings, are both 0, the bond is 0 and the self percentage is the text
  \<^verbatim>\<open>NaN\<close>: the division of 0 by 0 is not guarded.
\<close>

theorem self_percentage_NaN_for_zero_bond:
  assumes "mixNodeResponseItemToMixnodeRowType item = Inr row"
    and "MixNodeResponseItem.pledge_amount item = Some pa"
    and "MixNodeResponseItem.total_delegation item = Some td"
    and "or_num (Number (amount pa)) (Fin 0) = Fin 0"
    and "or_num (Number (amount td)) (Fin 0) = Fin 0"
  shows "self_percentage row = ''NaN'' \<and> bond row = Fin 0"
proof -
  have "self_percentage row = ''NaN''"
    using row_self_percentage [OF assms(1-3)]
    unfolding assms(4,5) zero_over_zero by simp
  moreover have "bond row = Fin 0"
    using row_bond [OF assms(1-3)]
    unfolding assms(4,5) zero_plus_zero by simp
  ultimately show ?thesis by simp
qed

theorem self_percentage_NaN_for_zero_bond_witness:
  "mixNodeResponseItemToMixnodeRowType zero_item =
     Inr \<lparr> id' = ''n1zero'', status = ''standby'', owner = ''n1zero'',
           location = '''', identity_key = ''idkey'', bond = Fin 0,
           self_percentage = ''NaN'', host = ''1.2.3.4'', layer = ''1'',
           profit_percentage = ''0%'', avg_uptime = ''undefined%'',
           stake_saturation = ''-'' \<rparr> \<and>
   MixNodeResponseItem.pledge_amount zero_item = Some \<lparr> amount = ''0'' \<rparr> \<and>
   MixNodeResponseItem.total_delegation zero_item = Some \<lparr> amount = ''0'' \<rparr> \<and>
   or_num (Number ''0'') (Fin 0) = Fin 0"
proof -
  have pa: "MixNodeResponseItem.pledge_amount zero_item = Some \<lparr> amount = ''0'' \<rparr>"
    and td: "MixNodeResponseItem.total_delegation zero_item = Some \<lparr> amount = ''0'' \<rparr>"
    by (simp_all add: zero_item_def)
  have z: "or_num (Number (amount \<lparr> amount = ''0'' \<rparr>)) (Fin 0) = Fin 0"
    by (simp add: Number_0 or_num_zero)
  from self_percentage_NaN_for_zero_bond [OF zero_item_row pa td z z] zero_item_row pa td z
  show ?thesis
    by simp
qed

subsection \<open>Stake saturation\<close>

text \<open>
  Claim C6, as the code has it. When the raw stake saturation is a number other than a
  zero and NaN, the row's stake saturation is that number times 100, printed by
  \<^verbatim>\<open>toFixed(2)\<close>, with \<^verbatim>\<open>" %"\<close> appended; when it is absent, a zero or NaN, it is
  the text \<^verbatim>\<open>-\<close>. The number 0.8552 gives \<^verbatim>\<open>"85.52 %"\<close>.
\<close>

theorem stake_saturation_truthy_formatted:
  assumes "mixNodeResponseItemToMixnodeRowType item = Inr row"
  shows "(\<forall>x. MixNodeResponseItem.stake_saturation item = Some x \<and> \<not> is_zero x \<and> \<not> is_nan x \<longrightarrow>
            (\<exists>s. toFixed (num_mul x (Fin 100)) 2 = Inr s \<and> stake_saturation row = s @ '' %'')) \<and>
         (MixNodeResponseItem.stake_saturation item = None \<longrightarrow> stake_saturation row = ''-'') \<and>
         (\<forall>x. MixNodeResponseItem.stake_saturation item = Some x \<and> (is_zero x \<or> is_nan x) \<longrightarrow>
            stake_saturation row = ''-'') \<and>
         (MixNodeResponseItem.stake_saturation item = Some (Number ''0.8552'') \<longrightarrow>
            stake_saturation row = ''85.52 %'') \<and>
         (\<forall>x. MixNodeResponseItem.stake_saturation item = Some x \<and> \<not> is_zero x \<and> \<not> is_nan x \<and>
              is_finite (num_mul x (Fin 100)) \<and> \<bar>to_rat (num_mul x (Fin 100))\<bar> < 10 ^ 21 \<longrightarrow>
            (\<exists>a b. stake_saturation row = a @ ''.'' @ b @ '' %'' \<and> length b = 2))"
proof -
  note sat = row_stake_saturation [OF assms]
  have truthy: "\<exists>s. toFixed (num_mul x (Fin 100)) 2 = Inr s \<and> stake_saturation row = s @ '' %''"
    if "MixNodeResponseItem.stake_saturation item = Some x" "\<not> is_zero x" "\<not> is_nan x" for x
  proof -
    obtain s where s: "toFixed (num_mul x (Fin 100)) 2 = Inr s"
      using toFixed_two by blast
    with sat that show ?thesis
      by (simp add: stake_saturation_text_truthy)
  qed
  have absent: "stake_saturation row = ''-''"
    if "MixNodeResponseItem.stake_saturation item = None"
    using sat that by (simp add: stake_saturation_text_absent)
  have falsy: "stake_saturation row = ''-''"
    if "MixNodeResponseItem.stake_saturation item = Some x" "is_zero x \<or> is_nan x" for x
    using sat that by (simp add: stake_saturation_text_falsy)
  have literal: "stake_saturation row = ''85.52 %''"
    if "MixNodeResponseItem.stake_saturation item = Some (Number ''0.8552'')"
  proof -
    have "\<not> is_zero (Number ''0.8552'')" and "\<not> is_nan (Number ''0.8552'')"
      by (simp_all add: Number_08552 is_zero_def is_nan_def)
    from truthy [OF that this] show ?thesis
      by (simp add: Number_08552 mul_08552_100 toFixed_8552)
  qed
  have decimals: "\<exists>a b. stake_saturation row = a @ ''.'' @ b @ '' %'' \<and> length b = 2"
    if some: "MixNodeResponseItem.stake_saturation item = Some x"
      and nz: "\<not> is_zero x" and nn: "\<not> is_nan x"
      and fin: "is_finite (num_mul x (Fin 100))"
      and small: "\<bar>to_rat (num_mul x (Fin 100))\<bar> < 10 ^ 21" for x
  proof -
    obtain a b where "toFixed (num_mul x (Fin 100)) 2 = Inr (a @ ''.'' @ b)" and "length b = 2"
      using toFixed_two_decimals [OF fin small] by blast
    with truthy [OF some nz nn] show ?thesis by auto
  qed
  from truthy absent falsy literal decimals show ?thesis by blast
qed

theorem stake_saturation_truthy_formatted_witness:
  "\<exists>row. mixNodeResponseItemToMixnodeRowType typical_item = Inr row \<and>
     MixNodeResponseItem.stake_saturation typical_item = Some (Number ''0.8552'') \<and>
     stake_saturation row = ''85.52 %''"
proof -
  have "MixNodeResponseItem.stake_saturation typical_item = Some (Number ''0.8552'')"
    by (simp add: typical_item_def)
  with stake_saturation_truthy_formatted [OF typical_item_row] typical_item_row
  show ?thesis by simp
qed

text \<open>
  Claim C6 as the spec words it, that every numeric stake saturation is formatted, fails
  at the number 0: formatted it would read \<^verbatim>\<open>0.00 %\<close>, and the row has \<^verbatim>\<open>-\<close>.
\<close>

theorem stake_saturation_zero_counterexample:
  "MixNodeResponseItem.stake_saturation zero_item = Some (Fin 0) \<and>
   toFixed (num_mul (Fin 0) (Fin 100)) 2 = Inr ''0.00'' \<and>
   mixNodeResponseItemToMixnodeRowType zero_item =
     Inr \<lparr> id' = ''n1zero'', status = ''standby'', owner = ''n1zero'',
           location = '''', identity_key = ''idkey'', bond = Fin 0,
           self_percentage = ''NaN'', host = ''1.2.3.4'', layer = ''1'',
           profit_percentage = ''0%'', avg_uptime = ''undefined%'',
           stake_saturation = ''-'' \<rparr>"
  using zero_item_row
  by (simp add: zero_item_def num_eval toFixed_zero)

text \<open>
  Claim C10. When the raw stake saturation is the number 0, the row's stake saturation
  is the text \<^verbatim>\<open>-\<close> and not \<^verbatim>\<open>0.00 %\<close>: \<^verbatim>\<open>item.stake_saturation || ''\<close> has
  replaced the 0 by the empty string before the test of its type.
\<close>

theorem stake_saturation_zero_is_dash:
  assumes "mixNodeResponseItemToMixnodeRowType item = Inr row"
    and "MixNodeResponseItem.stake_saturation item = Some (Fin 0)"
  shows "stake_saturation row = ''-'' \<and> stake_saturation row \<noteq> ''0.00 %'' \<and>
         js_or (num_field (MixNodeResponseItem.stake_saturation item)) (Str '''') = Str ''''"
proof -
  have "stake_saturation row = ''-''"
    using row_stake_saturation [OF assms(1)] assms(2)
    by (simp add: stake_saturation_text_falsy is_zero_def)
  moreover have "js_or (num_field (MixNodeResponseItem.stake_saturation item)) (Str '''') = Str ''''"
    using assms(2) by (simp add: js_or_def num_field_def truthy_num_def is_zero_def)
  ultimately show ?thesis by simp
qed

theorem stake_saturation_zero_is_dash_witness:
  "MixNodeResponseItem.stake_saturation zero_item = Some (Fin 0) \<and>
   (\<exists>row. mixNodeResponseItemToMixnodeRowType zero_item = Inr row \<and>
      stake_saturation row = ''-'')"
proof -
  have z: "MixNodeResponseItem.stake_saturation zero_item = Some (Fin 0)"
    by (simp add: zero_item_def)
  from stake_saturation_zero_is_dash [OF zero_item_row z] zero_item_row z
  show ?thesis by simp
qed

subsection \<open>Uptime and the string fields\<close>

text \<open>
  Claim C7. The row's average uptime is the raw value converted to a string, followed
  by \<^verbatim>\<open>%\<close>, whether the raw value is present or not (an absent one reads
  \<^verbatim>\<open>undefined\<close>); the fallback \<^verbatim>\<open>'-'\<close> of the source is never taken, so no row has
  the average uptime \<^verbatim>\<open>-\<close>.
\<close>

theorem avg_uptime_never_dash:
  assumes "mixNodeResponseItemToMixnodeRowType item = Inr row"
  shows "avg_uptime row = ToString (num_field (MixNodeResponseItem.avg_uptime item)) @ ''%'' \<and>
         avg_uptime row \<noteq> ''-'' \<and>
         (MixNodeResponseItem.avg_uptime item = None \<longrightarrow> avg_uptime row = ''undefined%'') \<and>
         (\<forall>x. MixNodeResponseItem.avg_uptime item = Some x \<longrightarrow>
            avg_uptime row = Number_toString x @ ''%'')"
proof -
  have eq: "avg_uptime row = ToString (num_field (MixNodeResponseItem.avg_uptime item)) @ ''%''"
    using row_avg_uptime [OF assms] by (simp add: or_str_def)
  then have "avg_uptime row \<noteq> ''-''"
    by (cases "ToString (num_field (MixNodeResponseItem.avg_uptime item))") auto
  with eq show ?thesis
    by (auto simp: num_field_def)
qed

theorem avg_uptime_never_dash_witness:
  "\<exists>row. mixNodeResponseItemToMixnodeRowType bare_item = Inr row \<and>
     MixNodeResponseItem.avg_uptime bare_item = None \<and>
     avg_uptime row = ''undefined%'' \<and> avg_uptime row \<noteq> ''-''"
proof -
  have "MixNodeResponseItem.avg_uptime bare_item = None"
    by (simp add: bare_item_def)
  with avg_uptime_never_dash [OF bare_item_row] bare_item_row
  show ?thesis by simp
qed

text \<open>
  Claim C8, as the code has it. For every input record that has its node-info object
  and its two amounts, the row's location, identity key, host and layer are the raw
  fields \<^verbatim>\<open>location.country_name\<close>, \<^verbatim>\<open>mix_node.identity_key\<close>, \<^verbatim>\<open>mix_node.host\<close>
  and \<^verbatim>\<open>layer\<close> where they are present, and the empty string where the field, or the
  location object, is missing.
\<close>

theorem string_fields_default_empty:
  assumes "well_shaped item"
    and "MixNodeResponseItem.mix_node item = Some mn"
  shows "\<exists>row. mixNodeResponseItemToMixnodeRowType item = Inr row \<and>
         location row =
           (case MixNodeResponseItem.location item of
              None \<Rightarrow> ''''
            | Some loc \<Rightarrow> (case country_name loc of None \<Rightarrow> '''' | Some c \<Rightarrow> c)) \<and>
         identity_key row = (case MixNode.identity_key mn of None \<Rightarrow> '''' | Some k \<Rightarrow> k) \<and>
         host row = (case MixNode.host mn of None \<Rightarrow> '''' | Some h \<Rightarrow> h) \<and>
         layer row = (case MixNodeResponseItem.layer item of None \<Rightarrow> '''' | Some l \<Rightarrow> l)"
proof -
  from assms(1) obtain row where row: "mixNodeResponseItemToMixnodeRowType item = Inr row"
    using row_exists by blast
  have "location row =
          (case MixNodeResponseItem.location item of
             None \<Rightarrow> ''''
           | Some loc \<Rightarrow> (case country_name loc of None \<Rightarrow> '''' | Some c \<Rightarrow> c))"
    by (simp add: row_location [OF row] opt_or_str_eq split: option.splits)
  moreover have "identity_key row = (case MixNode.identity_key mn of None \<Rightarrow> '''' | Some k \<Rightarrow> k)"
    by (simp add: row_identity_key [OF row assms(2)] opt_or_str_eq)
  moreover have "host row = (case MixNode.host mn of None \<Rightarrow> '''' | Some h \<Rightarrow> h)"
    by (simp add: row_host [OF row assms(2)] opt_or_str_eq)
  moreover have "layer row = (case MixNodeResponseItem.layer item of None \<Rightarrow> '''' | Some l \<Rightarrow> l)"
    by (simp add: row_layer [OF row] opt_or_str_eq)
  ultimately show ?thesis
    using row by (intro exI [of _ row]) simp
qed

theorem string_fields_default_empty_witness:
  "well_shaped typical_item \<and> well_shaped malformed_item \<and>
   (\<exists>row. mixNodeResponseItemToMixnodeRowType typical_item = Inr row \<and>
      location row = ''Norway'' \<and> identity_key row = ''idkey'' \<and>
      host row = ''1.2.3.4'' \<and> layer row = ''2'') \<and>
   (\<exists>row. mixNodeResponseItemToMixnodeRowType malformed_item = Inr row \<and>
      MixNodeResponseItem.location malformed_item = None \<and>
      location row = '''' \<and> identity_key row = '''' \<and> host row = '''' \<and> layer row = '''')"
proof -
  have wt: "well_shaped typical_item" and wm: "well_shaped malformed_item"
    by (simp_all add: well_shaped_def typical_item_def malformed_item_def)
  have t: "MixNodeResponseItem.mix_node typical_item =
             Some \<lparr> MixNode.identity_key = Some ''idkey'', MixNode.host = Some ''1.2.3.4'',
                    profit_margin_percent = Some (Fin 10) \<rparr>"
    by (simp add: typical_item_def)
  have m: "MixNodeResponseItem.mix_node malformed_item =
             Some \<lparr> MixNode.identity_key = None, MixNode.host = None,
                    profit_margin_percent = None \<rparr>"
    by (simp add: malformed_item_def)
  have tf: "MixNodeResponseItem.location typical_item = Some \<lparr> country_name = Some ''Norway'' \<rparr>"
    "MixNodeResponseItem.layer typical_item = Some ''2''"
    by (simp_all add: typical_item_def)
  have mf: "MixNodeResponseItem.location malformed_item = None"
    "MixNodeResponseItem.layer malformed_item = None"
    by (simp_all add: malformed_item_def)
  from string_fields_default_empty [OF wt t] tf
  have a: "\<exists>row. mixNodeResponseItemToMixnodeRowType typical_item = Inr row \<and>
      location row = ''Norway'' \<and> identity_key row = ''idkey'' \<and>
      host row = ''1.2.3.4'' \<and> layer row = ''2''"
    by simp
  from string_fields_default_empty [OF wm m] mf
  have b: "\<exists>row. mixNodeResponseItemToMixnodeRowType malformed_item = Inr row \<and>
      MixNodeResponseItem.location malformed_item = None \<and>
      location row = '''' \<and> identity_key row = '''' \<and> host row = '''' \<and> layer row = ''''"
    by simp
  from wt wm a b show ?thesis by blast
qed

text \<open>
  Claim C8 as the spec words it, with the empty string for a host whose object is
  missing, fails at a record without its node-info object: although the host is read
  through \<^verbatim>\<open>item?.mix_node?.host\<close>, the function has thrown at
  \<^verbatim>\<open>item.mix_node.profit_margin_percent\<close> before, and there is no row.
\<close>

theorem missing_node_info_counterexample:
  "MixNodeResponseItem.mix_node nodeless_item = None \<and>
   Option.bind (MixNodeResponseItem.mix_node nodeless_item) MixNode.host = None \<and>
   mixNodeResponseItemToMixnodeRowType nodeless_item = Inl TypeError"
  using nodeless_item_throws
  by (simp add: nodeless_item_def)

end
